theory Spec2Isabelle
  imports Complex_Main "HOL-Library.Word" "HOL-Library.Char_ord" "HOL-Library.Sublist"
begin

section \<open>Data model\<close>

text \<open>
  Go's \<open>int\<close> is the 64-bit signed integer of the platforms the service is built for, and
  \<open>time.Now().Unix()\<close> is an \<open>int64\<close>. A Go \<open>string\<close> is a sequence of bytes, as an
  Isabelle \<open>string\<close> is; \<open>len\<close> counts bytes. The \<open>float64\<close> rating is decoded from a JSON
  number and copied, never computed with; a JSON number is finite, so a rational stands
  for it.
\<close>

type_synonym int64 = "64 word"
type_synonym float64 = rat

text \<open>main.go: the external record and its store links.\<close>

record Store =
  ID :: int64
  Name :: string
  URL :: string
  Image :: string

record Game =
  ID :: string
  Title :: string
  Description :: string
  BackgroundImage :: string
  Genres :: "string list"
  Rating :: float64
  RatingTop :: int64
  ReleaseDate :: string
  Added :: int64
  Metacritic :: int64
  Playtime :: int64
  Updated :: string
  Reviews :: int64
  Platforms :: "string list"
  Stores :: "Store list"

text \<open>rawg_client.go: the provider's records.\<close>

record Genre =
  ID :: int64
  Name :: string

record PlatformDetail =
  ID :: int64
  Name :: string

record Platform =
  Platform :: PlatformDetail

record RAWGStoreDetail =
  ID :: int64
  Name :: string
  URL :: string
  Image :: string

record RAWGStore =
  Store :: RAWGStoreDetail

record RAWGGame =
  ID :: int64
  Name :: string
  Released :: string
  BackgroundImage :: string
  Rating :: float64
  RatingTop :: int64
  Added :: int64
  Metacritic :: int64
  Playtime :: int64
  Updated :: string
  ReviewsCount :: int64
  Description :: string
  Genres :: "Genre list"
  Platforms :: "Platform list"
  Stores :: "RAWGStore list"

record RAWGResponse =
  Count :: int64
  Next :: string
  Previous :: string
  Results :: "RAWGGame list"

text \<open>A Go \<open>error\<close> is modelled by its message, the value of \<open>err.Error()\<close>.\<close>

datatype error = Error string

text \<open>\<open>fmt.Errorf(prefix + "%w", err)\<close>: the wrapped error's message after the prefix.\<close>

fun Errorf_w :: "string \<Rightarrow> error \<Rightarrow> error" where
  "Errorf_w p (Error m) = Error (p @ m)"

section \<open>The collaborators outside the repository\<close>

text \<open>
  What the code reads from its process, the network and the Go library enters the model
  as one record of parameters: the environment variable (\<open>os.Getenv\<close> gives the empty
  string when it is unset), \<open>url.Parse\<close> and \<open>http.NewRequest\<close> (\<open>None\<close> when they
  return no error), \<open>client.Do\<close> (the error, or the result of \<open>io.ReadAll\<close> on the
  response body: the error or the bytes), the two uses of \<open>json.Unmarshal\<close>, and
  \<open>strings.Map(unicode.ToLower, s)\<close>, which \<open>strings.ToLower\<close> calls on a string that
  is not pure ASCII.
\<close>

record extern =
  RAWG_API_KEY :: string
  url_Parse :: "string \<Rightarrow> error option"
  http_NewRequest :: "string \<Rightarrow> error option"
  client_Do :: "string \<Rightarrow> error + (error + string)"
  Unmarshal_RAWGResponse :: "string \<Rightarrow> error + RAWGResponse"
  Unmarshal_RAWGGame :: "string \<Rightarrow> error + RAWGGame"
  Map_unicode_ToLower :: "string \<Rightarrow> string"

section \<open>Library functions the code calls\<close>

text \<open>
  \<open>strings.ToLower\<close>: a string of bytes below \<open>utf8.RuneSelf\<close> (0x80) is lowered byte by
  byte, \<open>'A'..'Z'\<close> moved by \<open>'a' - 'A'\<close>; any other string goes through the Unicode
  mapping.
\<close>

definition lower_byte :: "char \<Rightarrow> char" where
  "lower_byte c = (if CHR ''A'' \<le> c \<and> c \<le> CHR ''Z'' then char_of (of_char c + (32::nat)) else c)"

definition strings_ToLower :: "extern \<Rightarrow> string \<Rightarrow> string" where
  "strings_ToLower ext s =
     (if list_all (\<lambda>c. (of_char c :: nat) < 128) s then map lower_byte s
      else Map_unicode_ToLower ext s)"

text \<open>
  \<open>url.QueryEscape\<close>: \<open>shouldEscape\<close> in the mode \<open>encodeQueryComponent\<close> keeps the
  ASCII letters, the digits and \<open>- _ . ~\<close>; a space becomes \<open>+\<close>, every other byte
  \<open>%XX\<close> with upper-case hexadecimal digits.
\<close>

definition shouldEscape :: "char \<Rightarrow> bool" where
  "shouldEscape c =
     (\<not> ((CHR ''a'' \<le> c \<and> c \<le> CHR ''z'') \<or> (CHR ''A'' \<le> c \<and> c \<le> CHR ''Z'')
         \<or> (CHR ''0'' \<le> c \<and> c \<le> CHR ''9'')
         \<or> c = CHR ''-'' \<or> c = CHR ''_'' \<or> c = CHR ''.'' \<or> c = CHR ''~''))"

definition upperhex :: string where
  "upperhex = ''0123456789ABCDEF''"

definition escape_byte :: "char \<Rightarrow> string" where
  "escape_byte c =
     (if c = CHR '' '' then ''+''
      else if shouldEscape c
        then [CHR ''%'', upperhex ! ((of_char c :: nat) div 16), upperhex ! ((of_char c :: nat) mod 16)]
      else [c])"

definition url_QueryEscape :: "string \<Rightarrow> string" where
  "url_QueryEscape s = concat (map escape_byte s)"

text \<open>\<open>fmt.Sprintf("%d", n)\<close> on an \<open>int\<close>: the signed decimal numeral.\<close>

fun utoa :: "nat \<Rightarrow> string" where
  "utoa n = (if n < 10 then [''0123456789'' ! n]
             else utoa (n div 10) @ [''0123456789'' ! (n mod 10)])"

declare utoa.simps [simp del]

definition Sprintf_d :: "int64 \<Rightarrow> string" where
  "Sprintf_d n = (if sint n < 0 then CHR ''-'' # utoa (nat (- sint n)) else utoa (nat (sint n)))"

text \<open>
  \<open>time.Now()\<close> is an instant, counted here in nanoseconds since the epoch;
  \<open>time.Second\<close> is 1000000000 of them, and \<open>Unix()\<close> gives the instant's whole
  seconds since the epoch, rounded down, as an \<open>int64\<close>.
\<close>

definition time_Second :: int where
  "time_Second = 1000000000"

definition Unix :: "int \<Rightarrow> int64" where
  "Unix instant = word_of_int (instant div time_Second)"

section \<open>rawg\_client.go\<close>

definition baseAPIURL :: string where
  "baseAPIURL = ''https://api.rawg.io/api''"

definition generateStoreURL :: "extern \<Rightarrow> string \<Rightarrow> string \<Rightarrow> string" where
  "generateStoreURL ext storeName gameName =
     (let encodedName = url_QueryEscape gameName;
          lowered = strings_ToLower ext storeName
      in if lowered = ''steam'' then ''https://store.steampowered.com/search/?term='' @ encodedName
         else if lowered = ''playstation store'' then ''https://store.playstation.com/search/'' @ encodedName
         else if lowered = ''xbox store'' then ''https://www.xbox.com/games/search?q='' @ encodedName
         else if lowered = ''nintendo'' then ''https://www.nintendo.com/search/?q='' @ encodedName @ ''&p=1&cat=gme''
         else if lowered = ''gog'' then ''https://www.gog.com/games?query='' @ encodedName
         else if lowered = ''epic games'' then ''https://store.epicgames.com/browse?q='' @ encodedName
         else ''https://www.google.com/search?q=buy+'' @ encodedName @ ''+game'')"

text \<open>The loop appends one \<open>Store\<close> for each provider entry, in order.\<close>

definition getStores :: "extern \<Rightarrow> RAWGStore list \<Rightarrow> string \<Rightarrow> Store list" where
  "getStores ext stores gameName =
     map (\<lambda>store.
            let storeURL = generateStoreURL ext (RAWGStoreDetail.Name (Store store)) gameName
            in \<lparr>Store.ID = RAWGStoreDetail.ID (Store store),
                Name = RAWGStoreDetail.Name (Store store),
                URL = storeURL,
                Image = RAWGStoreDetail.Image (Store store)\<rparr>)
         stores"

definition getGenres :: "Genre list \<Rightarrow> string list" where
  "getGenres genres = map (\<lambda>genre. Genre.Name genre) genres"

definition getPlatforms :: "Platform list \<Rightarrow> string list" where
  "getPlatforms platforms = map (\<lambda>platform. PlatformDetail.Name (Platform platform)) platforms"

text \<open>
  The mapping function of \<open>validateURL\<close>: the runes it keeps. \<open>strings.Map\<close> walks the
  runes of the string; a byte from 0x80 up belongs to a rune outside the three ranges and
  the six signs (or decodes to U+FFFD), which the mapping drops, so on the bytes
  \<open>strings.Map\<close> is the filter of the kept bytes.
\<close>

definition keepRune :: "char \<Rightarrow> bool" where
  "keepRune r =
     ((r \<ge> CHR ''a'' \<and> r \<le> CHR ''z'') \<or>
      (r \<ge> CHR ''A'' \<and> r \<le> CHR ''Z'') \<or>
      (r \<ge> CHR ''0'' \<and> r \<le> CHR ''9'') \<or>
      (r = CHR ''/'' \<or> r = CHR ''-'' \<or> r = CHR ''_'' \<or> r = CHR ''?'' \<or> r = CHR ''='' \<or> r = CHR ''&''))"

definition validateURL :: "string \<Rightarrow> error option" where
  "validateURL endpoint =
     (if \<not> prefix ''/'' endpoint then Some (Error ''endpoint must start with /'')
      else let validEndpoint = filter keepRune endpoint
           in if validEndpoint \<noteq> endpoint then Some (Error ''invalid characters in endpoint'')
              else None)"

text \<open>
  Every function that may reach the network returns, beside its result, the list of the
  URLs it handed to \<open>client.Do\<close>: the network calls it made.
\<close>

definition makeRequest :: "extern \<Rightarrow> string \<Rightarrow> (error + (error + string)) \<times> string list" where
  "makeRequest ext urlStr =
     (case url_Parse ext urlStr of
        Some err \<Rightarrow> (Inl (Errorf_w ''invalid URL: '' err), [])
      | None \<Rightarrow>
         (case http_NewRequest ext urlStr of
            Some err \<Rightarrow> (Inl (Errorf_w ''error creating request: '' err), [])
          | None \<Rightarrow>
             (case client_Do ext urlStr of
                Inl err \<Rightarrow> (Inl (Errorf_w ''error making request: '' err), [urlStr])
              | Inr resp \<Rightarrow> (Inr resp, [urlStr]))))"

definition fetchGames :: "extern \<Rightarrow> string \<Rightarrow> (error + Game list) \<times> string list" where
  "fetchGames ext endpoint =
     (case validateURL endpoint of
        Some err \<Rightarrow> (Inl (Errorf_w ''invalid endpoint: '' err), [])
      | None \<Rightarrow>
         (let apiKey = RAWG_API_KEY ext in
          if apiKey = [] then (Inl (Error ''RAWG_API_KEY not configured''), [])
          else
            let urlStr = baseAPIURL @ endpoint;
                urlStr = (if CHR ''?'' \<in> set endpoint
                          then urlStr @ ''&key='' @ apiKey @ ''&page_size=20''
                          else urlStr @ ''?key='' @ apiKey @ ''&page_size=20'')
            in case makeRequest ext urlStr of
                 (Inl err, calls) \<Rightarrow> (Inl err, calls)
               | (Inr resp, calls) \<Rightarrow>
                  (case resp of
                     Inl err \<Rightarrow> (Inl (Errorf_w ''error reading response: '' err), calls)
                   | Inr body \<Rightarrow>
                      (case Unmarshal_RAWGResponse ext body of
                         Inl err \<Rightarrow> (Inl (Errorf_w ''error parsing response: '' err), calls)
                       | Inr rawgResp \<Rightarrow>
                          (Inr (map (\<lambda>rawgGame.
                                  \<lparr>Game.ID = Sprintf_d (RAWGGame.ID rawgGame),
                                   Title = RAWGGame.Name rawgGame,
                                   Description = RAWGGame.Description rawgGame,
                                   BackgroundImage = RAWGGame.BackgroundImage rawgGame,
                                   Genres = getGenres (RAWGGame.Genres rawgGame),
                                   Rating = RAWGGame.Rating rawgGame,
                                   RatingTop = RAWGGame.RatingTop rawgGame,
                                   ReleaseDate = RAWGGame.Released rawgGame,
                                   Added = RAWGGame.Added rawgGame,
                                   Metacritic = RAWGGame.Metacritic rawgGame,
                                   Playtime = RAWGGame.Playtime rawgGame,
                                   Updated = RAWGGame.Updated rawgGame,
                                   Reviews = RAWGGame.ReviewsCount rawgGame,
                                   Platforms = getPlatforms (RAWGGame.Platforms rawgGame),
                                   Stores = getStores ext (RAWGGame.Stores rawgGame) (RAWGGame.Name rawgGame)\<rparr>)
                                (Results rawgResp)),
                           calls)))))"

text \<open>
  \<open>fetchGameByID\<close> returns a pointer: \<open>None\<close> is the nil pointer. Its last statement
  returns the address of the record it has just built.
\<close>

definition fetchGameByID :: "extern \<Rightarrow> string \<Rightarrow> (error + Game option) \<times> string list" where
  "fetchGameByID ext id' =
     (if id' = [] then (Inl (Error ''game ID cannot be empty''), [])
      else
        let endpoint = ''/games/'' @ id' in
        case validateURL endpoint of
          Some err \<Rightarrow> (Inl (Errorf_w ''invalid game ID: '' err), [])
        | None \<Rightarrow>
           (let apiKey = RAWG_API_KEY ext in
            if apiKey = [] then (Inl (Error ''RAWG_API_KEY not configured''), [])
            else
              let urlStr = baseAPIURL @ endpoint @ ''?key='' @ apiKey
              in case makeRequest ext urlStr of
                   (Inl err, calls) \<Rightarrow> (Inl err, calls)
                 | (Inr resp, calls) \<Rightarrow>
                    (case resp of
                       Inl err \<Rightarrow> (Inl (Errorf_w ''error reading response: '' err), calls)
                     | Inr body \<Rightarrow>
                        (case Unmarshal_RAWGGame ext body of
                           Inl err \<Rightarrow> (Inl (Errorf_w ''error parsing response: '' err), calls)
                         | Inr rawgGame \<Rightarrow>
                            (Inr (Some
                                  \<lparr>Game.ID = Sprintf_d (RAWGGame.ID rawgGame),
                                   Title = RAWGGame.Name rawgGame,
                                   Description = RAWGGame.Description rawgGame,
                                   BackgroundImage = RAWGGame.BackgroundImage rawgGame,
                                   Genres = getGenres (RAWGGame.Genres rawgGame),
                                   Rating = RAWGGame.Rating rawgGame,
                                   RatingTop = RAWGGame.RatingTop rawgGame,
                                   ReleaseDate = RAWGGame.Released rawgGame,
                                   Added = RAWGGame.Added rawgGame,
                                   Metacritic = RAWGGame.Metacritic rawgGame,
                                   Playtime = RAWGGame.Playtime rawgGame,
                                   Updated = RAWGGame.Updated rawgGame,
                                   Reviews = RAWGGame.ReviewsCount rawgGame,
                                   Platforms = getPlatforms (RAWGGame.Platforms rawgGame),
                                   Stores = getStores ext (RAWGGame.Stores rawgGame) (RAWGGame.Name rawgGame)\<rparr>),
                             calls)))))"

text \<open>
  The earlier revision of \<open>fetchGames\<close> (the client without endpoint validation) builds
  its URL differently; this is the URL it hands to \<open>http.Get\<close>, for a credential that is
  not empty. Indexing the last byte of an empty endpoint panics.
\<close>

definition fetchGames_v1_url :: "string \<Rightarrow> string \<Rightarrow> error + string" where
  "fetchGames_v1_url apiKey endpoint =
     (let baseURL = ''https://api.rawg.io/api'' @ endpoint in
      if endpoint = ''/games'' \<or> endpoint = ''/games/latest'' \<or> endpoint = ''/games/popular''
      then Inr (baseURL @ ''?key='' @ apiKey @ ''&page_size=20&stores=1,2,3,4,5,6,7,8,9,10,11'')
      else if endpoint = [] then Inl (Error ''runtime error: index out of range [-1]'')
      else if last endpoint = CHR ''?''
      then Inr (baseURL @ ''key='' @ apiKey @ ''&page_size=20&stores=1,2,3,4,5,6,7,8,9,10,11'')
      else Inr (baseURL @ ''&key='' @ apiKey @ ''&page_size=20&stores=1,2,3,4,5,6,7,8,9,10,11''))"

section \<open>main.go\<close>

text \<open>
  What a handler writes with \<open>c.JSON\<close>: the status and the body, which is
  \<open>gin.H{"error": msg}\<close>, one record or a list of records.
\<close>

datatype body = H_error string | GameJSON Game | GamesJSON "Game list"

type_synonym response = "nat \<times> body"

text \<open>A middleware either calls \<open>c.Next()\<close> or aborts the chain with a response.\<close>

datatype outcome = Next | AbortWithStatusJSON nat body

definition handleResponse :: "error + Game list \<Rightarrow> response" where
  "handleResponse r =
     (case r of
        Inl err \<Rightarrow> (500, H_error ''Internal server error'')
      | Inr data \<Rightarrow> (200, GamesJSON data))"

text \<open>
  \<open>c.Query("q")\<close> is the first value of the parameter, and the empty string when the
  request has no such parameter: the handler's input is \<open>None\<close> for an absent \<open>q\<close>.
\<close>

definition c_Query :: "string option \<Rightarrow> string" where
  "c_Query q = (case q of None \<Rightarrow> [] | Some v \<Rightarrow> v)"

definition searchGames :: "extern \<Rightarrow> string option \<Rightarrow> response \<times> string list" where
  "searchGames ext q =
     (let query = c_Query q in
      if query = [] then ((400, H_error ''Search query is required''), [])
      else case fetchGames ext (''/games?search='' @ query) of
             (r, calls) \<Rightarrow> (handleResponse r, calls))"

definition getGameByID :: "extern \<Rightarrow> string \<Rightarrow> response \<times> string list" where
  "getGameByID ext id' =
     (case fetchGameByID ext id' of
        (Inl err, calls) \<Rightarrow> ((500, H_error ''Failed to fetch game''), calls)
      | (Inr None, calls) \<Rightarrow> ((404, H_error ''Game not found''), calls)
      | (Inr (Some game), calls) \<Rightarrow> ((200, GameJSON game), calls))"

text \<open>
  \<open>rateLimiter\<close>: the closure's map is the state, \<open>c.ClientIP()\<close> and
  \<open>time.Now().Unix()\<close> are the inputs of one run of the middleware, which happens under
  the mutex as one step. The subtraction is Go's \<open>int64\<close> subtraction, which wraps, and
  the comparisons are signed.
\<close>

type_synonym limiter = "string \<rightharpoonup> int64"

definition purge :: "limiter \<Rightarrow> int64 \<Rightarrow> limiter" where
  "purge limiter now =
     (\<lambda>key. case limiter key of
               None \<Rightarrow> None
             | Some timestamp \<Rightarrow> if 60 <s now - timestamp then None else Some timestamp)"

definition rateLimiter :: "limiter \<Rightarrow> string \<Rightarrow> int64 \<Rightarrow> limiter \<times> outcome" where
  "rateLimiter limiter ip now =
     (let limiter = purge limiter now in
      case limiter ip of
        Some timestamp \<Rightarrow>
          if now - timestamp <s 1
          then (limiter, AbortWithStatusJSON 429 (H_error ''Too many requests''))
          else (limiter(ip \<mapsto> now), Next)
      | None \<Rightarrow> (limiter(ip \<mapsto> now), Next))"

text \<open>
  The server runs the middleware once for each request, one after the other under the
  mutex: the map after a sequence of requests, each given by its client address and the
  clock reading at its check.
\<close>

fun serve :: "limiter \<Rightarrow> (string \<times> int64) list \<Rightarrow> limiter" where
  "serve limiter [] = limiter"
| "serve limiter ((ip, now) # reqs) = serve (fst (rateLimiter limiter ip now)) reqs"

text \<open>
  \<open>validateInput\<close> reads four things of the request: the method, the raw query string,
  the \<open>Content-Type\<close> header (\<open>c.GetHeader\<close> gives the empty string when there is none)
  and the keys of \<open>c.Request.URL.Query()\<close>, the parameter names as the library parses
  them. Every abort inside the loop over the keys is the same, so the order in which Go
  walks the map does not show.
\<close>

record request =
  Method :: string
  RawQuery :: string
  ContentType :: string
  QueryKeys :: "string list"

definition strings_ContainsAny :: "string \<Rightarrow> string \<Rightarrow> bool" where
  "strings_ContainsAny s chars = list_ex (\<lambda>c. c \<in> set chars) s"

definition validateInput :: "request \<Rightarrow> outcome" where
  "validateInput req =
     (if length (RawQuery req) > 1024
      then AbortWithStatusJSON 400 (H_error ''Query string too long'')
      else if Method req = ''POST'' \<and> ContentType req \<noteq> ''application/json''
      then AbortWithStatusJSON 415 (H_error ''Unsupported Media Type'')
      else if list_ex (\<lambda>param. strings_ContainsAny param (''<>{}[]'' @ [CHR 0x5C])) (QueryKeys req)
      then AbortWithStatusJSON 400 (H_error ''Invalid characters in parameters'')
      else Next)"

section \<open>The specification's words\<close>

text \<open>
  The endpoint alphabet \<open>[a-zA-Z0-9/_?=&-]\<close> written out, and a valid endpoint path: one
  that starts with \<open>/\<close> and is spelled in that alphabet.
\<close>

definition endpoint_charset :: string where
  "endpoint_charset = ''abcdefghijklmnopqrstuvwxyzABCDEFGHIJKLMNOPQRSTUVWXYZ0123456789/_?=&-''"

definition valid_endpoint :: "string \<Rightarrow> bool" where
  "valid_endpoint endpoint =
     (prefix ''/'' endpoint \<and> list_all (\<lambda>c. c \<in> set endpoint_charset) endpoint)"

text \<open>
  The URL the specification describes for a collection query, without the store filter:
  the base, the path, \<open>&\<close> or \<open>?\<close> according to whether the path has a \<open>?\<close>, the
  credential and the page size.
\<close>

definition outbound_url :: "string \<Rightarrow> string \<Rightarrow> string" where
  "outbound_url apiKey endpoint =
     baseAPIURL @ endpoint @ (if CHR ''?'' \<in> set endpoint then ''&'' else ''?'')
       @ ''key='' @ apiKey @ ''&page_size=20''"

text \<open>
  Store-URL synthesis as a lookup table: the six storefronts by display name, each with
  the text of its template before and after the escaped title; the generic search
  template; a match of names that ignores case; and the lookup, first match first.
\<close>

definition storefronts :: "(string \<times> string \<times> string) list" where
  "storefronts =
     [(''Steam'', ''https://store.steampowered.com/search/?term='', []),
      (''PlayStation Store'', ''https://store.playstation.com/search/'', []),
      (''Xbox Store'', ''https://www.xbox.com/games/search?q='', []),
      (''Nintendo'', ''https://www.nintendo.com/search/?q='', ''&p=1&cat=gme''),
      (''GOG'', ''https://www.gog.com/games?query='', []),
      (''Epic Games'', ''https://store.epicgames.com/browse?q='', [])]"

definition generic_search :: "string \<times> string" where
  "generic_search = (''https://www.google.com/search?q=buy+'', ''+game'')"

definition same_name :: "extern \<Rightarrow> string \<Rightarrow> string \<Rightarrow> bool" where
  "same_name ext a b = (strings_ToLower ext a = strings_ToLower ext b)"

definition synthesize :: "extern \<Rightarrow> string \<Rightarrow> string \<Rightarrow> string" where
  "synthesize ext storeName title =
     (case find (\<lambda>(name, template). same_name ext name storeName) storefronts of
        Some (name, before, after) \<Rightarrow> before @ url_QueryEscape title @ after
      | None \<Rightarrow> fst generic_search @ url_QueryEscape title @ snd generic_search)"

text \<open>
  The two conditions of the input validator that are not a plain length: a \<open>POST\<close>
  whose content type is not \<open>application/json\<close>, and a query parameter name with one of
  the characters \<open>< > { } [ ] \\<close>.
\<close>

definition bad_media_type :: "request \<Rightarrow> bool" where
  "bad_media_type req = (Method req = ''POST'' \<and> ContentType req \<noteq> ''application/json'')"

definition bad_parameter_name :: "request \<Rightarrow> bool" where
  "bad_parameter_name req =
     list_ex (\<lambda>param. list_ex (\<lambda>c. c \<in> set (''<>{}[]'' @ [CHR 0x5C])) param) (QueryKeys req)"

text \<open>
  An instant the clock can show: not before the epoch, and with whole seconds that fit
  an \<open>int64\<close>.
\<close>

definition clock_ok :: "int \<Rightarrow> bool" where
  "clock_ok instant = (0 \<le> instant \<and> instant < 2 ^ 63 * time_Second)"

section \<open>Concrete inputs\<close>

text \<open>
  The zero value of \<open>RAWGGame\<close>: what \<open>json.Unmarshal\<close> leaves of a fresh record when
  the object it decodes has none of the record's fields, such as the empty object.
\<close>

definition zero_RAWGGame :: RAWGGame where
  "zero_RAWGGame =
     \<lparr>RAWGGame.ID = 0, Name = [], Released = [], BackgroundImage = [], Rating = 0, RatingTop = 0,
      Added = 0, Metacritic = 0, Playtime = 0, Updated = [], ReviewsCount = 0, Description = [],
      Genres = [], Platforms = [], Stores = []\<rparr>"

text \<open>
  A process with the credential \<open>k\<close> whose upstream answers every request with the
  empty object, which decodes without error into either record.
\<close>

definition sample_extern :: extern where
  "sample_extern =
     \<lparr>RAWG_API_KEY = ''k'',
      url_Parse = (\<lambda>u. None),
      http_NewRequest = (\<lambda>u. None),
      client_Do = (\<lambda>u. Inr (Inr ''{}'')),
      Unmarshal_RAWGResponse = (\<lambda>b. Inr \<lparr>Count = 0, Next = [], Previous = [], Results = []\<rparr>),
      Unmarshal_RAWGGame = (\<lambda>b. Inr zero_RAWGGame),
      Map_unicode_ToLower = (\<lambda>s. s)\<rparr>"

text \<open>A provider store entry that carries a purchase URL of its own.\<close>

definition steam_entry :: RAWGStore where
  "steam_entry =
     \<lparr>Store = \<lparr>RAWGStoreDetail.ID = 1, Name = ''Steam'',
                URL = ''https://store.steampowered.com/app/271590'', Image = []\<rparr>\<rparr>"

text \<open>
  A limiter map with two clients: one checked at second 100, one last seen at second 30.
\<close>

definition sample_limiter :: limiter where
  "sample_limiter = [''10.0.0.1'' \<mapsto> 100, ''10.0.0.2'' \<mapsto> 30]"

section \<open>Endpoint validation\<close>

lemma keepRune_all: "\<forall>r. keepRune r = (r \<in> set endpoint_charset)"
  by code_simp

lemma keepRune_charset: "keepRune r \<longleftrightarrow> r \<in> set endpoint_charset"
  using keepRune_all by blast

lemma validateURL_cases:
  "validateURL endpoint =
     (if \<not> prefix ''/'' endpoint then Some (Error ''endpoint must start with /'')
      else if \<exists>c\<in>set endpoint. c \<notin> set endpoint_charset
      then Some (Error ''invalid characters in endpoint'')
      else None)"
  by (auto simp: validateURL_def Let_def filter_id_conv keepRune_charset)

lemma validateURL_None_iff: "validateURL endpoint = None \<longleftrightarrow> valid_endpoint endpoint"
  by (auto simp: validateURL_cases valid_endpoint_def list_all_iff)

text \<open>
  C5. An endpoint that does not start with \<open>/\<close> or has a byte outside
  \<open>[a-zA-Z0-9/_?=&-]\<close> makes \<open>fetchGames\<close> return the invalid-endpoint error (the
  message \<open>invalid endpoint:\<close> followed by the reason) with no network call made; an
  endpoint that starts with \<open>/\<close> and is spelled in the alphabet passes \<open>validateURL\<close>.
\<close>

theorem fetchGames_rejects_invalid_endpoint:
  "(\<not> prefix ''/'' endpoint \<or> (\<exists>c\<in>set endpoint. c \<notin> set endpoint_charset) \<longrightarrow>
      fetchGames ext endpoint =
        (Inl (Error (''invalid endpoint: '' @
            (if \<not> prefix ''/'' endpoint then ''endpoint must start with /''
             else ''invalid characters in endpoint''))), []))
   \<and> (prefix ''/'' endpoint \<and> (\<forall>c\<in>set endpoint. c \<in> set endpoint_charset) \<longrightarrow>
        validateURL endpoint = None)"
  by (auto simp: fetchGames_def validateURL_cases)

theorem fetchGames_rejects_invalid_endpoint_witness:
  "(\<exists>c\<in>set ''/games;DROP''. c \<notin> set endpoint_charset)
   \<and> fetchGames sample_extern ''/games;DROP'' =
        (Inl (Error ''invalid endpoint: invalid characters in endpoint''), [])
   \<and> fetchGames sample_extern ''games'' =
        (Inl (Error ''invalid endpoint: endpoint must start with /''), [])
   \<and> prefix ''/'' ''/games?ordering=-rating''
   \<and> list_all (\<lambda>c. c \<in> set endpoint_charset) ''/games?ordering=-rating''
   \<and> validateURL ''/games?ordering=-rating'' = None"
  using fetchGames_rejects_invalid_endpoint [of "''/games;DROP''" sample_extern]
    fetchGames_rejects_invalid_endpoint [of "''games''" sample_extern]
    fetchGames_rejects_invalid_endpoint [of "''/games?ordering=-rating''" sample_extern]
  by (simp add: endpoint_charset_def)

section \<open>The credential\<close>

text \<open>
  C6. With an empty \<open>RAWG_API_KEY\<close>, \<open>fetchGames\<close> on every valid endpoint path and
  \<open>fetchGameByID\<close> on every identifier that is not empty and gives a valid path
  \<open>/games/<id>\<close> return the error \<open>RAWG_API_KEY not configured\<close>, and the list of
  network calls is empty.
\<close>

theorem missing_credential_no_network:
  "RAWG_API_KEY ext = [] \<Longrightarrow>
     (valid_endpoint endpoint \<longrightarrow>
        fetchGames ext endpoint = (Inl (Error ''RAWG_API_KEY not configured''), []))
   \<and> (id' \<noteq> [] \<and> valid_endpoint (''/games/'' @ id') \<longrightarrow>
        fetchGameByID ext id' = (Inl (Error ''RAWG_API_KEY not configured''), []))"
  by (simp add: fetchGames_def fetchGameByID_def validateURL_None_iff [symmetric])

theorem missing_credential_no_network_witness:
  "RAWG_API_KEY (sample_extern\<lparr>RAWG_API_KEY := []\<rparr>) = []
   \<and> valid_endpoint ''/games?ordering=-released''
   \<and> fetchGames (sample_extern\<lparr>RAWG_API_KEY := []\<rparr>) ''/games?ordering=-released''
        = (Inl (Error ''RAWG_API_KEY not configured''), [])
   \<and> valid_endpoint (''/games/'' @ ''3498'')
   \<and> fetchGameByID (sample_extern\<lparr>RAWG_API_KEY := []\<rparr>) ''3498''
        = (Inl (Error ''RAWG_API_KEY not configured''), [])"
  using missing_credential_no_network
    [of "sample_extern\<lparr>RAWG_API_KEY := []\<rparr>" "''/games?ordering=-released''" "''3498''"]
  by (simp add: valid_endpoint_def endpoint_charset_def)

section \<open>The outbound URL\<close>

lemma makeRequest_calls:
  "snd (makeRequest ext u) =
     (if url_Parse ext u = None \<and> http_NewRequest ext u = None then [u] else [])"
  by (simp add: makeRequest_def split: option.splits sum.splits)

lemma fetchGames_calls:
  assumes "validateURL endpoint = None" and "RAWG_API_KEY ext \<noteq> []"
  shows "snd (fetchGames ext endpoint)
           = snd (makeRequest ext (outbound_url (RAWG_API_KEY ext) endpoint))"
proof -
  obtain r calls where m: "makeRequest ext (outbound_url (RAWG_API_KEY ext) endpoint) = (r, calls)"
    by (cases "makeRequest ext (outbound_url (RAWG_API_KEY ext) endpoint)")
  have u: "(if CHR ''?'' \<in> set endpoint
            then (baseAPIURL @ endpoint) @ ''&key='' @ RAWG_API_KEY ext @ ''&page_size=20''
            else (baseAPIURL @ endpoint) @ ''?key='' @ RAWG_API_KEY ext @ ''&page_size=20'')
           = outbound_url (RAWG_API_KEY ext) endpoint"
    by (simp add: outbound_url_def)
  show ?thesis
    using assms m unfolding fetchGames_def Let_def u
    by (simp split: sum.splits)
qed

text \<open>
  C7, as stated, fails. The claim has the outbound URL of a collection query carry
  \<open>key=<credential>&page_size=20\<close> together with a fixed store filter, joined by \<open>&\<close>
  when the path has a \<open>?\<close> and by \<open>?\<close> otherwise. \<open>fetchGames\<close> in rawg\_client.go
  appends no store filter: for \<open>/games\<close> and the credential \<open>k\<close> the one URL requested
  ends in \<open>page_size=20\<close>. The earlier revision does append \<open>stores=1,...,11\<close>, but it
  chooses the joiner by comparing the path with three fixed paths and by its last byte:
  the valid path \<open>/genres\<close>, which has no \<open>?\<close>, is joined by \<open>&\<close>.
\<close>

theorem fetchGames_no_store_filter:
  "snd (fetchGames sample_extern ''/games'') = [''https://api.rawg.io/api/games?key=k&page_size=20'']
   \<and> fetchGames_v1_url ''k'' ''/genres''
       = Inr ''https://api.rawg.io/api/genres&key=k&page_size=20&stores=1,2,3,4,5,6,7,8,9,10,11''"
  by (simp add: fetchGames_calls makeRequest_calls validateURL_cases endpoint_charset_def
       sample_extern_def outbound_url_def baseAPIURL_def fetchGames_v1_url_def)

text \<open>
  C7, amended. For every valid collection endpoint path and every credential that is not
  empty, \<open>fetchGames\<close> makes at most one network call, and its URL is the base URL and
  the path followed by \<open>key=<credential>&page_size=20\<close> and nothing more, joined by
  \<open>&\<close> when the path has a \<open>?\<close> and by \<open>?\<close> otherwise; the call is made when
  \<open>url.Parse\<close> and \<open>http.NewRequest\<close> accept that URL.
\<close>

theorem fetchGames_outbound_url:
  "valid_endpoint endpoint \<Longrightarrow> RAWG_API_KEY ext \<noteq> [] \<Longrightarrow>
     snd (fetchGames ext endpoint) =
       (if url_Parse ext (outbound_url (RAWG_API_KEY ext) endpoint) = None
           \<and> http_NewRequest ext (outbound_url (RAWG_API_KEY ext) endpoint) = None
        then [outbound_url (RAWG_API_KEY ext) endpoint] else [])"
  by (simp add: fetchGames_calls makeRequest_calls validateURL_None_iff)

theorem fetchGames_outbound_url_witness:
  "valid_endpoint ''/games?ordering=-rating'' \<and> RAWG_API_KEY sample_extern \<noteq> []
   \<and> snd (fetchGames sample_extern ''/games?ordering=-rating'')
        = [''https://api.rawg.io/api/games?ordering=-rating&key=k&page_size=20'']
   \<and> valid_endpoint ''/genres''
   \<and> snd (fetchGames sample_extern ''/genres'') = [''https://api.rawg.io/api/genres?key=k&page_size=20'']"
  using fetchGames_outbound_url [of "''/games?ordering=-rating''" sample_extern]
    fetchGames_outbound_url [of "''/genres''" sample_extern]
  by (simp add: valid_endpoint_def endpoint_charset_def sample_extern_def outbound_url_def
       baseAPIURL_def)

section \<open>The search handler\<close>

text \<open>
  C9. With \<open>q\<close> absent or empty, \<open>searchGames\<close> answers 400 with the body
  \<open>{"error":"Search query is required"}\<close> and makes no network call. With a \<open>q\<close> that
  is not empty it answers what \<open>handleResponse\<close> makes of
  \<open>fetchGames("/games?search=" + q)\<close>; and when \<open>q\<close> is spelled in the endpoint
  alphabet, the credential is set and the library accepts the URL, the one network call
  goes to the search URL with that query.
\<close>

theorem searchGames_requires_query:
  "(q = None \<or> q = Some [] \<longrightarrow>
      searchGames ext q = ((400, H_error ''Search query is required''), []))
   \<and> (query \<noteq> [] \<longrightarrow>
        searchGames ext (Some query) =
          (handleResponse (fst (fetchGames ext (''/games?search='' @ query))),
           snd (fetchGames ext (''/games?search='' @ query))))
   \<and> (query \<noteq> [] \<and> list_all (\<lambda>c. c \<in> set endpoint_charset) query \<and> RAWG_API_KEY ext \<noteq> []
        \<and> url_Parse ext (baseAPIURL @ ''/games?search='' @ query @ ''&key='' @ RAWG_API_KEY ext @ ''&page_size=20'') = None
        \<and> http_NewRequest ext (baseAPIURL @ ''/games?search='' @ query @ ''&key='' @ RAWG_API_KEY ext @ ''&page_size=20'') = None \<longrightarrow>
        snd (searchGames ext (Some query)) =
          [baseAPIURL @ ''/games?search='' @ query @ ''&key='' @ RAWG_API_KEY ext @ ''&page_size=20''])"
proof (intro conjI impI)
  assume "q = None \<or> q = Some []"
  then show "searchGames ext q = ((400, H_error ''Search query is required''), [])"
    by (auto simp: searchGames_def c_Query_def)
next
  assume "query \<noteq> []"
  then show "searchGames ext (Some query) =
          (handleResponse (fst (fetchGames ext (''/games?search='' @ query))),
           snd (fetchGames ext (''/games?search='' @ query)))"
    by (simp add: searchGames_def c_Query_def split: prod.splits)
next
  assume a: "query \<noteq> [] \<and> list_all (\<lambda>c. c \<in> set endpoint_charset) query \<and> RAWG_API_KEY ext \<noteq> []
        \<and> url_Parse ext (baseAPIURL @ ''/games?search='' @ query @ ''&key='' @ RAWG_API_KEY ext @ ''&page_size=20'') = None
        \<and> http_NewRequest ext (baseAPIURL @ ''/games?search='' @ query @ ''&key='' @ RAWG_API_KEY ext @ ''&page_size=20'') = None"
  then have v: "validateURL (''/games?search='' @ query) = None"
    by (simp add: validateURL_None_iff valid_endpoint_def endpoint_charset_def)
  have s: "snd (searchGames ext (Some query)) = snd (fetchGames ext (''/games?search='' @ query))"
    using a by (simp add: searchGames_def c_Query_def split: prod.splits)
  have k: "RAWG_API_KEY ext \<noteq> []"
    using a by simp
  have o: "outbound_url (RAWG_API_KEY ext) (''/games?search='' @ query)
             = baseAPIURL @ ''/games?search='' @ query @ ''&key='' @ RAWG_API_KEY ext @ ''&page_size=20''"
    by (simp add: outbound_url_def)
  show "snd (searchGames ext (Some query)) =
          [baseAPIURL @ ''/games?search='' @ query @ ''&key='' @ RAWG_API_KEY ext @ ''&page_size=20'']"
    using a s o fetchGames_calls [OF v k] by (simp add: makeRequest_calls)
qed

theorem searchGames_requires_query_witness:
  "searchGames sample_extern None = ((400, H_error ''Search query is required''), [])
   \<and> searchGames sample_extern (Some []) = ((400, H_error ''Search query is required''), [])
   \<and> searchGames sample_extern (Some ''zelda'') =
          (handleResponse (fst (fetchGames sample_extern (''/games?search='' @ ''zelda''))),
           snd (fetchGames sample_extern (''/games?search='' @ ''zelda'')))
   \<and> snd (searchGames sample_extern (Some ''zelda'')) =
          [''https://api.rawg.io/api/games?search=zelda&key=k&page_size=20'']"
  using searchGames_requires_query [of None sample_extern "''zelda''"]
    searchGames_requires_query [of "Some []" sample_extern "''zelda''"]
  by (simp add: endpoint_charset_def sample_extern_def baseAPIURL_def)

section \<open>The input validator\<close>

text \<open>
  C8. The three rejections overlap (a \<open>POST\<close> with a wrong content type may also have an
  over-long query), so they are read in the order the claim lists them, which is the
  order of the checks: a raw query string of more than 1024 bytes is answered 400; else a
  \<open>POST\<close> whose \<open>Content-Type\<close> is not \<open>application/json\<close> is answered 415; else a
  request with a forbidden character in a query parameter name is answered 400; every
  other request reaches \<open>c.Next()\<close>.
\<close>

theorem validateInput_rules:
  "(length (RawQuery req) > 1024 \<longrightarrow>
      validateInput req = AbortWithStatusJSON 400 (H_error ''Query string too long''))
   \<and> (length (RawQuery req) \<le> 1024 \<and> bad_media_type req \<longrightarrow>
      validateInput req = AbortWithStatusJSON 415 (H_error ''Unsupported Media Type''))
   \<and> (length (RawQuery req) \<le> 1024 \<and> \<not> bad_media_type req \<and> bad_parameter_name req \<longrightarrow>
      validateInput req = AbortWithStatusJSON 400 (H_error ''Invalid characters in parameters''))
   \<and> (length (RawQuery req) \<le> 1024 \<and> \<not> bad_media_type req \<and> \<not> bad_parameter_name req \<longrightarrow>
      validateInput req = Next)"
  by (simp add: validateInput_def bad_media_type_def bad_parameter_name_def
       strings_ContainsAny_def)

theorem validateInput_rules_witness:
  "validateInput \<lparr>Method = ''GET'', RawQuery = replicate 1025 CHR ''a'', ContentType = [],
                   QueryKeys = [replicate 1025 CHR ''a'']\<rparr>
     = AbortWithStatusJSON 400 (H_error ''Query string too long'')
   \<and> validateInput \<lparr>Method = ''POST'', RawQuery = [], ContentType = ''text/plain'', QueryKeys = []\<rparr>
     = AbortWithStatusJSON 415 (H_error ''Unsupported Media Type'')
   \<and> validateInput \<lparr>Method = ''GET'', RawQuery = ''<q>=1'', ContentType = [], QueryKeys = [''<q>'']\<rparr>
     = AbortWithStatusJSON 400 (H_error ''Invalid characters in parameters'')
   \<and> validateInput \<lparr>Method = ''GET'', RawQuery = ''q=zelda'', ContentType = [], QueryKeys = [''q'']\<rparr>
     = Next"
  using validateInput_rules [of "\<lparr>Method = ''GET'', RawQuery = replicate 1025 CHR ''a'',
                                   ContentType = [], QueryKeys = [replicate 1025 CHR ''a'']\<rparr>"]
    validateInput_rules [of "\<lparr>Method = ''POST'', RawQuery = [], ContentType = ''text/plain'', QueryKeys = []\<rparr>"]
    validateInput_rules [of "\<lparr>Method = ''GET'', RawQuery = ''<q>=1'', ContentType = [], QueryKeys = [''<q>'']\<rparr>"]
    validateInput_rules [of "\<lparr>Method = ''GET'', RawQuery = ''q=zelda'', ContentType = [], QueryKeys = [''q'']\<rparr>"]
  by (simp add: bad_media_type_def bad_parameter_name_def)

section \<open>Store links\<close>

lemma lower_names:
  "strings_ToLower ext ''Steam'' = ''steam''"
  "strings_ToLower ext ''PlayStation Store'' = ''playstation store''"
  "strings_ToLower ext ''Xbox Store'' = ''xbox store''"
  "strings_ToLower ext ''Nintendo'' = ''nintendo''"
  "strings_ToLower ext ''GOG'' = ''gog''"
  "strings_ToLower ext ''Epic Games'' = ''epic games''"
  by code_simp+

lemma synthesize_examples:
  "synthesize sample_extern ''STEAM'' ''Half-Life 2: Episode One'' =
     ''https://store.steampowered.com/search/?term=Half-Life+2%3A+Episode+One''"
  "synthesize sample_extern ''nintendo'' ''Zelda'' =
     ''https://www.nintendo.com/search/?q=Zelda&p=1&cat=gme''"
  "synthesize sample_extern ''itch.io'' ''Celeste'' =
     ''https://www.google.com/search?q=buy+Celeste+game''"
  by code_simp+

lemma generateStoreURL_nonempty: "generateStoreURL ext storeName gameName \<noteq> []"
  by (simp add: generateStoreURL_def Let_def)

lemma generateStoreURL_steam_example:
  "generateStoreURL sample_extern ''Steam'' ''Grand Theft Auto V''
     = ''https://store.steampowered.com/search/?term=Grand+Theft+Auto+V''"
  by code_simp

text \<open>
  C3. \<open>generateStoreURL\<close> is the table lookup: the store name is matched, ignoring
  case, against the six storefronts Steam, PlayStation Store, Xbox Store, Nintendo, GOG
  and Epic Games, and the result is the matching store's template with the URL-escaped
  title in its place; a name that matches none gives the generic search template with
  the escaped title.
\<close>

theorem generateStoreURL_table:
  "generateStoreURL ext storeName gameName = synthesize ext storeName gameName
   \<and> map fst storefronts
       = [''Steam'', ''PlayStation Store'', ''Xbox Store'', ''Nintendo'', ''GOG'', ''Epic Games'']"
  by (simp add: generateStoreURL_def synthesize_def storefronts_def generic_search_def
      same_name_def lower_names Let_def eq_commute [of "strings_ToLower ext storeName"])

theorem generateStoreURL_table_witness:
  "generateStoreURL sample_extern ''STEAM'' ''Half-Life 2: Episode One'' =
     ''https://store.steampowered.com/search/?term=Half-Life+2%3A+Episode+One''
   \<and> generateStoreURL sample_extern ''nintendo'' ''Zelda'' =
       ''https://www.nintendo.com/search/?q=Zelda&p=1&cat=gme''
   \<and> generateStoreURL sample_extern ''itch.io'' ''Celeste'' =
       ''https://www.google.com/search?q=buy+Celeste+game''"
  using generateStoreURL_table [of sample_extern "''STEAM''" "''Half-Life 2: Episode One''"]
    generateStoreURL_table [of sample_extern "''nintendo''" "''Zelda''"]
    generateStoreURL_table [of sample_extern "''itch.io''" "''Celeste''"]
  by (simp add: synthesize_examples)

text \<open>
  C2, as stated, fails: the claim has the link carry the provider's URL when there is
  one. \<open>getStores\<close> never reads the provider's URL: the entry for Steam with the URL
  \<open>https://store.steampowered.com/app/271590\<close> gets the synthesized search URL.
\<close>

theorem getStores_ignores_provider_url:
  "RAWGStoreDetail.URL (Store steam_entry) = ''https://store.steampowered.com/app/271590''
   \<and> map Store.URL (getStores sample_extern [steam_entry] ''Grand Theft Auto V'')
       = [''https://store.steampowered.com/search/?term=Grand+Theft+Auto+V'']"
  by (simp add: getStores_def steam_entry_def generateStoreURL_steam_example)

text \<open>
  C2, amended. For every provider store entry, whether or not it carries a URL, the
  purchase URL of the normalized link is synthesized from the store name and the game
  title; the links come one for each entry, in order, and every one has a URL that is
  not empty.
\<close>

theorem getStores_synthesizes:
  "length (getStores ext stores gameName) = length stores
   \<and> (\<forall>i<length stores.
        Store.URL (getStores ext stores gameName ! i)
          = generateStoreURL ext (RAWGStoreDetail.Name (Store (stores ! i))) gameName
        \<and> Store.URL (getStores ext stores gameName ! i) \<noteq> [])"
  by (simp add: getStores_def Let_def generateStoreURL_nonempty)

theorem getStores_synthesizes_witness:
  "length (getStores sample_extern [steam_entry] ''Portal'') = 1
   \<and> Store.URL (getStores sample_extern [steam_entry] ''Portal'' ! 0)
       = generateStoreURL sample_extern ''Steam'' ''Portal''
   \<and> Store.URL (getStores sample_extern [steam_entry] ''Portal'' ! 0) \<noteq> []"
proof -
  have "RAWGStoreDetail.Name (Store steam_entry) = ''Steam''"
    by (simp add: steam_entry_def)
  with getStores_synthesizes [of sample_extern "[steam_entry]" "''Portal''"]
  show ?thesis by auto
qed

section \<open>Single-game lookup\<close>

lemma fetchGameByID_never_nil: "fst (fetchGameByID ext id') \<noteq> Inr None"
  by (simp add: fetchGameByID_def Let_def split: option.splits prod.splits sum.splits)

lemma getGameByID_never_404: "fst (fst (getGameByID ext id')) \<noteq> 404"
  using fetchGameByID_never_nil [of ext id']
  by (auto simp add: getGameByID_def split: option.splits prod.splits sum.splits)

lemma getGameByID_fetch_failure:
  "fst (fetchGameByID ext id') = Inl err \<Longrightarrow>
     fst (getGameByID ext id') = (500, H_error ''Failed to fetch game'')"
  by (cases "fetchGameByID ext id'") (simp add: getGameByID_def)

text \<open>
  C1. The claim: when the upstream answers with a decodable object whose identifier is
  zero or absent, \<open>fetchGameByID\<close> returns a nil record and no error, and the handler
  answers 404 with \<open>{"error":"Game not found"}\<close>. The code at such an input: the
  upstream's empty object decodes to the zero record, \<open>fetchGameByID\<close> returns the
  address of a record with the identifier \<open>0\<close> and every other field empty, and
  \<open>getGameByID\<close> answers 200 with it. No input at all reaches the handler's 404
  branch (\<open>getGameByID_never_404\<close>), since \<open>fetchGameByID\<close> returns nil only with an
  error; every error of \<open>fetchGameByID\<close> is answered 500
  (\<open>getGameByID_fetch_failure\<close>).
\<close>

theorem getGameByID_zero_identifier:
  "getGameByID sample_extern ''999999'' =
     ((200, GameJSON \<lparr>Game.ID = ''0'', Title = [], Description = [], BackgroundImage = [],
         Genres = [], Rating = 0, RatingTop = 0, ReleaseDate = [], Added = 0, Metacritic = 0,
         Playtime = 0, Updated = [], Reviews = 0, Platforms = [], Stores = []\<rparr>),
      [''https://api.rawg.io/api/games/999999?key=k''])"
  by (simp add: fetchGameByID_def getGameByID_def validateURL_def keepRune_def makeRequest_def
       sample_extern_def zero_RAWGGame_def Sprintf_d_def utoa.simps getGenres_def
       getPlatforms_def getStores_def baseAPIURL_def)

section \<open>The rate limiter\<close>

text \<open>
  The subtraction of two clock readings does not wrap when neither is negative, that is,
  when the clock is not set before 1970.
\<close>

lemma sint_diff_clock:
  fixes a b :: int64
  assumes "0 \<le> sint a" and "0 \<le> sint b"
  shows "sint (a - b) = sint a - sint b"
proof -
  have "sint a < 2 ^ 63" and "sint b < 2 ^ 63"
    using sint_lt [of a] sint_lt [of b] by simp_all
  with assms have "- (2 ^ 63) \<le> sint a - sint b" and "sint a - sint b < 2 ^ 63"
    by simp_all
  then have "signed_take_bit 63 (sint a - sint b) = sint a - sint b"
    by (simp add: signed_take_bit_int_eq_self)
  then show ?thesis
    by (simp add: sint_word_ariths)
qed

lemma within_window_iff:
  fixes now t :: int64
  assumes "0 \<le> sint now" and "0 \<le> sint t"
  shows "now - t <s 1 \<longleftrightarrow> sint now - sint t < 1"
  by (simp add: word_sless_alt sint_diff_clock [OF assms])

lemma stale_iff:
  fixes now t :: int64
  assumes "0 \<le> sint now" and "0 \<le> sint t"
  shows "60 <s now - t \<longleftrightarrow> 60 < sint now - sint t"
  by (simp add: word_sless_alt sint_diff_clock [OF assms])

lemma purge_keeps:
  assumes "limiter key = Some t" and "0 \<le> sint now" and "0 \<le> sint t" and "sint now - sint t \<le> 60"
  shows "purge limiter now key = Some t"
  using assms by (simp add: purge_def stale_iff)

lemma purge_drops:
  assumes "limiter key = Some t" and "0 \<le> sint now" and "0 \<le> sint t" and "60 < sint now - sint t"
  shows "purge limiter now key = None"
  using assms by (simp add: purge_def stale_iff)

lemma purge_None: "limiter key = None \<Longrightarrow> purge limiter now key = None"
  by (simp add: purge_def)

lemma rateLimiter_rejects:
  assumes "limiter ip = Some t" and "0 \<le> sint now" and "0 \<le> sint t" and "sint now - sint t < 1"
  shows "rateLimiter limiter ip now
           = (purge limiter now, AbortWithStatusJSON 429 (H_error ''Too many requests''))"
proof -
  have "purge limiter now ip = Some t"
    by (rule purge_keeps [of _ _ t]) (use assms in simp_all)
  then show ?thesis
    using assms by (simp add: rateLimiter_def Let_def within_window_iff)
qed

lemma rateLimiter_admits:
  assumes "limiter ip = Some t" and "0 \<le> sint now" and "0 \<le> sint t" and "1 \<le> sint now - sint t"
  shows "rateLimiter limiter ip now = ((purge limiter now)(ip \<mapsto> now), Next)"
proof (cases "60 < sint now - sint t")
  case True
  have "purge limiter now ip = None"
    by (rule purge_drops [of _ _ t]) (use assms True in simp_all)
  then show ?thesis
    by (simp add: rateLimiter_def Let_def)
next
  case False
  have "purge limiter now ip = Some t"
    by (rule purge_keeps [of _ _ t]) (use assms False in simp_all)
  then show ?thesis
    using assms by (simp add: rateLimiter_def Let_def within_window_iff)
qed

lemma rateLimiter_first:
  assumes "limiter ip = None"
  shows "rateLimiter limiter ip now = ((purge limiter now)(ip \<mapsto> now), Next)"
  using assms by (simp add: rateLimiter_def Let_def purge_None)

lemma rateLimiter_other:
  "key \<noteq> ip \<Longrightarrow> fst (rateLimiter limiter ip now) key = purge limiter now key"
  by (simp add: rateLimiter_def Let_def split: option.splits)

lemma rateLimiter_admitted_recorded:
  "snd (rateLimiter limiter ip now) = Next \<Longrightarrow> fst (rateLimiter limiter ip now) ip = Some now"
  by (simp add: rateLimiter_def Let_def split: option.splits if_splits)

lemma purge_forget: "(purge (limiter(ip := None)) now)(ip \<mapsto> now) = (purge limiter now)(ip \<mapsto> now)"
  by (rule ext) (simp add: purge_def)

text \<open>
  The reading of an instant the clock can show is its whole seconds, and is not negative;
  three facts link instants and readings.
\<close>

lemma seconds_fit: "(i::int) < 2 ^ 63 * 1000000000 \<Longrightarrow> i div 1000000000 < 2 ^ 63"
  by simp

lemma sint_Unix:
  assumes "clock_ok instant"
  shows "sint (Unix instant) = instant div time_Second"
proof -
  have "0 \<le> instant div time_Second"
    using assms by (simp add: clock_ok_def time_Second_def pos_imp_zdiv_nonneg_iff)
  moreover have "instant div time_Second < 2 ^ 63"
    using assms seconds_fit by (simp add: clock_ok_def time_Second_def)
  ultimately have "signed_take_bit 63 (instant div time_Second) = instant div time_Second"
    by (simp add: signed_take_bit_int_eq_self)
  then show ?thesis
    by (simp add: Unix_def sint_sbintrunc')
qed

lemma Unix_nonneg: "clock_ok instant \<Longrightarrow> 0 \<le> sint (Unix instant)"
  by (simp add: sint_Unix) (simp add: clock_ok_def time_Second_def pos_imp_zdiv_nonneg_iff)

lemma before_next_second:
  "instant < (r + 1) * time_Second \<longleftrightarrow> instant div time_Second - r < 1"
  by (auto simp: time_Second_def)

lemma second_later:
  "time_Second \<le> later - earlier \<Longrightarrow> 1 \<le> later div time_Second - earlier div time_Second"
  by (simp add: time_Second_def)

lemma idle_61:
  "(r + 61) * time_Second \<le> instant \<longleftrightarrow> 60 < instant div time_Second - r"
  by (auto simp: time_Second_def)

lemma idle_61_pair:
  "61 * time_Second \<le> later - earlier \<Longrightarrow> 60 < later div time_Second - earlier div time_Second"
  by (simp add: time_Second_def)

text \<open>
  C4, as stated, fails. The claim measures by the arrival of the requests: a second
  request less than 1 second after the client's last admitted one is rejected, and an
  entry idle for more than 60 seconds is purged by the next check. The limiter sees only
  the whole seconds of the clock. A first request at 100.999 s and a second at 101.000 s,
  one millisecond later, are both admitted; and the entry of a client admitted at
  100.000 s is still in the map after another client's check at 160.900 s, 60.9 seconds
  later.
\<close>

theorem rateLimiter_subsecond_pair:
  "(101000000000::int) - 100999000000 < time_Second
   \<and> snd (rateLimiter Map.empty ''10.0.0.1'' (Unix 100999000000)) = Next
   \<and> snd (rateLimiter (fst (rateLimiter Map.empty ''10.0.0.1'' (Unix 100999000000)))
             ''10.0.0.1'' (Unix 101000000000)) = Next
   \<and> 60 * time_Second < (160900000000::int) - 100000000000
   \<and> snd (rateLimiter Map.empty ''10.0.0.1'' (Unix 100000000000)) = Next
   \<and> fst (rateLimiter (fst (rateLimiter Map.empty ''10.0.0.1'' (Unix 100000000000)))
             ''10.0.0.2'' (Unix 160900000000)) ''10.0.0.1'' = Some 100"
  by (simp add: rateLimiter_def purge_def Unix_def time_Second_def)

text \<open>
  C4, amended. For every client and every pair of its requests of which the first is
  admitted: the first is recorded with its clock second; a second request in that same
  clock second (or an earlier one) is answered 429 and does not reach \<open>c.Next()\<close>; a
  second request 1 second or more after the first is admitted. In terms of the recorded
  second \<open>t\<close> of a client: a request before the instant \<open>t + 1\<close> is answered 429, a
  request at or after it is admitted. An entry is deleted by the next check, whichever
  client it is for, once the clock shows 61 seconds or more above its recorded second, so
  always after 61 seconds or more of idleness; when it is the client's own entry, the run
  is the run on the map without the entry: the request is treated as the client's first,
  which is admitted. Instants are those the clock can show.
\<close>

theorem rateLimiter_arrival_policy:
  assumes "clock_ok arrival"
  shows "(clock_ok first \<and> snd (rateLimiter limiter ip (Unix first)) = Next \<longrightarrow>
            fst (rateLimiter limiter ip (Unix first)) ip = Some (Unix first)
          \<and> (arrival div time_Second - first div time_Second < 1 \<longrightarrow>
               snd (rateLimiter (fst (rateLimiter limiter ip (Unix first))) ip (Unix arrival))
                 = AbortWithStatusJSON 429 (H_error ''Too many requests''))
          \<and> (time_Second \<le> arrival - first \<longrightarrow>
               snd (rateLimiter (fst (rateLimiter limiter ip (Unix first))) ip (Unix arrival)) = Next))
       \<and> (limiter ip = Some t \<and> 0 \<le> sint t \<longrightarrow>
            (arrival < (sint t + 1) * time_Second \<longrightarrow>
               snd (rateLimiter limiter ip (Unix arrival))
                 = AbortWithStatusJSON 429 (H_error ''Too many requests''))
          \<and> ((sint t + 1) * time_Second \<le> arrival \<longrightarrow>
               snd (rateLimiter limiter ip (Unix arrival)) = Next)
          \<and> ((sint t + 61) * time_Second \<le> arrival \<longrightarrow>
               rateLimiter limiter ip (Unix arrival)
                 = rateLimiter (limiter(ip := None)) ip (Unix arrival)))
       \<and> (limiter key = Some t' \<and> 0 \<le> sint t' \<and> (sint t' + 61) * time_Second \<le> arrival \<longrightarrow>
            purge limiter (Unix arrival) key = None
          \<and> (key \<noteq> ip \<longrightarrow> fst (rateLimiter limiter ip (Unix arrival)) key = None))
       \<and> (clock_ok seen \<and> limiter key = Some (Unix seen) \<and> 61 * time_Second \<le> arrival - seen \<longrightarrow>
            purge limiter (Unix arrival) key = None
          \<and> (key \<noteq> ip \<longrightarrow> fst (rateLimiter limiter ip (Unix arrival)) key = None)
          \<and> (key = ip \<longrightarrow> rateLimiter limiter ip (Unix arrival)
                 = rateLimiter (limiter(ip := None)) ip (Unix arrival)))
       \<and> (limiter ip = None \<longrightarrow> snd (rateLimiter limiter ip (Unix arrival)) = Next)"
proof -
  note now = Unix_nonneg [OF assms]
  note rd = sint_Unix [OF assms]
  have pair: "fst (rateLimiter limiter ip (Unix first)) ip = Some (Unix first)
          \<and> (arrival div time_Second - first div time_Second < 1 \<longrightarrow>
               snd (rateLimiter (fst (rateLimiter limiter ip (Unix first))) ip (Unix arrival))
                 = AbortWithStatusJSON 429 (H_error ''Too many requests''))
          \<and> (time_Second \<le> arrival - first \<longrightarrow>
               snd (rateLimiter (fst (rateLimiter limiter ip (Unix first))) ip (Unix arrival)) = Next)"
    if f: "clock_ok first \<and> snd (rateLimiter limiter ip (Unix first)) = Next"
  proof -
    have rec: "fst (rateLimiter limiter ip (Unix first)) ip = Some (Unix first)"
      using f by (simp add: rateLimiter_admitted_recorded)
    have f0: "0 \<le> sint (Unix first)"
      by (rule Unix_nonneg) (use f in simp)
    have fr: "sint (Unix first) = first div time_Second"
      by (rule sint_Unix) (use f in simp)
    have "snd (rateLimiter (fst (rateLimiter limiter ip (Unix first))) ip (Unix arrival))
            = AbortWithStatusJSON 429 (H_error ''Too many requests'')"
      if "arrival div time_Second - first div time_Second < 1"
      using rateLimiter_rejects [of "fst (rateLimiter limiter ip (Unix first))" ip "Unix first" "Unix arrival"]
        rec now f0 that by (simp add: rd fr)
    moreover have "snd (rateLimiter (fst (rateLimiter limiter ip (Unix first))) ip (Unix arrival)) = Next"
      if "time_Second \<le> arrival - first"
      using rateLimiter_admits [of "fst (rateLimiter limiter ip (Unix first))" ip "Unix first" "Unix arrival"]
        rec now f0 second_later [OF that] by (simp add: rd fr)
    ultimately show ?thesis
      using rec by blast
  qed
  have own: "(arrival < (sint t + 1) * time_Second \<longrightarrow>
               snd (rateLimiter limiter ip (Unix arrival))
                 = AbortWithStatusJSON 429 (H_error ''Too many requests''))
          \<and> ((sint t + 1) * time_Second \<le> arrival \<longrightarrow>
               snd (rateLimiter limiter ip (Unix arrival)) = Next)
          \<and> ((sint t + 61) * time_Second \<le> arrival \<longrightarrow>
               rateLimiter limiter ip (Unix arrival)
                 = rateLimiter (limiter(ip := None)) ip (Unix arrival))"
    if e: "limiter ip = Some t \<and> 0 \<le> sint t"
  proof (intro conjI impI)
    assume "arrival < (sint t + 1) * time_Second"
    then have "sint (Unix arrival) - sint t < 1"
      by (simp add: rd before_next_second)
    then show "snd (rateLimiter limiter ip (Unix arrival))
                 = AbortWithStatusJSON 429 (H_error ''Too many requests'')"
      using e now by (simp add: rateLimiter_rejects)
  next
    assume "(sint t + 1) * time_Second \<le> arrival"
    then have "1 \<le> sint (Unix arrival) - sint t"
      using before_next_second [of arrival "sint t"] by (simp add: rd)
    then show "snd (rateLimiter limiter ip (Unix arrival)) = Next"
      using e now by (simp add: rateLimiter_admits)
  next
    assume "(sint t + 61) * time_Second \<le> arrival"
    then have s: "60 < sint (Unix arrival) - sint t"
      by (simp add: rd idle_61)
    have "rateLimiter limiter ip (Unix arrival)
            = ((purge limiter (Unix arrival))(ip \<mapsto> Unix arrival), Next)"
      by (rule rateLimiter_admits [of _ _ t]) (use e now s in simp_all)
    moreover have "rateLimiter (limiter(ip := None)) ip (Unix arrival)
                     = ((purge (limiter(ip := None)) (Unix arrival))(ip \<mapsto> Unix arrival), Next)"
      by (rule rateLimiter_first) simp
    ultimately show "rateLimiter limiter ip (Unix arrival)
                       = rateLimiter (limiter(ip := None)) ip (Unix arrival)"
      by (simp add: purge_forget)
  qed
  have stale: "purge limiter (Unix arrival) key = None
          \<and> (key \<noteq> ip \<longrightarrow> fst (rateLimiter limiter ip (Unix arrival)) key = None)"
    if e: "limiter key = Some t' \<and> 0 \<le> sint t' \<and> (sint t' + 61) * time_Second \<le> arrival"
    for t'
  proof -
    have s: "60 < sint (Unix arrival) - sint t'"
      using e by (simp add: rd idle_61)
    have p: "purge limiter (Unix arrival) key = None"
      by (rule purge_drops [of _ _ t']) (use e now s in simp_all)
    then show ?thesis
      by (simp add: rateLimiter_other)
  qed
  have idle: "purge limiter (Unix arrival) key = None
          \<and> (key \<noteq> ip \<longrightarrow> fst (rateLimiter limiter ip (Unix arrival)) key = None)
          \<and> (key = ip \<longrightarrow> rateLimiter limiter ip (Unix arrival)
                 = rateLimiter (limiter(ip := None)) ip (Unix arrival))"
    if e: "clock_ok seen \<and> limiter key = Some (Unix seen) \<and> 61 * time_Second \<le> arrival - seen"
  proof -
    have s0: "0 \<le> sint (Unix seen)"
      by (rule Unix_nonneg) (use e in simp)
    have sr: "sint (Unix seen) = seen div time_Second"
      by (rule sint_Unix) (use e in simp)
    have s: "60 < sint (Unix arrival) - sint (Unix seen)"
      using e idle_61_pair [of arrival seen] by (simp add: rd sr)
    have p: "purge limiter (Unix arrival) key = None"
      by (rule purge_drops [of _ _ "Unix seen"]) (use e now s0 s in simp_all)
    have "rateLimiter limiter ip (Unix arrival) = rateLimiter (limiter(ip := None)) ip (Unix arrival)"
      if k: "key = ip"
    proof -
      have "rateLimiter limiter ip (Unix arrival)
              = ((purge limiter (Unix arrival))(ip \<mapsto> Unix arrival), Next)"
        by (rule rateLimiter_admits [of _ _ "Unix seen"]) (use e k now s0 s in simp_all)
      moreover have "rateLimiter (limiter(ip := None)) ip (Unix arrival)
                       = ((purge (limiter(ip := None)) (Unix arrival))(ip \<mapsto> Unix arrival), Next)"
        by (rule rateLimiter_first) simp
      ultimately show ?thesis
        by (simp add: purge_forget)
    qed
    then show ?thesis
      using p by (simp add: rateLimiter_other)
  qed
  have fresh: "limiter ip = None \<longrightarrow> snd (rateLimiter limiter ip (Unix arrival)) = Next"
    by (simp add: rateLimiter_first)
  show ?thesis
    using pair own stale [of t'] idle fresh by blast
qed

theorem rateLimiter_arrival_policy_witness:
  "clock_ok 100999000000 \<and> clock_ok 100000000000
   \<and> snd (rateLimiter Map.empty ''10.0.0.1'' (Unix 100000000000)) = Next
   \<and> snd (rateLimiter (fst (rateLimiter Map.empty ''10.0.0.1'' (Unix 100000000000)))
             ''10.0.0.1'' (Unix 100999000000))
       = AbortWithStatusJSON 429 (H_error ''Too many requests'')
   \<and> snd (rateLimiter (fst (rateLimiter Map.empty ''10.0.0.1'' (Unix 100000000000)))
             ''10.0.0.1'' (Unix 101000000000)) = Next
   \<and> snd (rateLimiter sample_limiter ''10.0.0.1'' (Unix 100999000000))
       = AbortWithStatusJSON 429 (H_error ''Too many requests'')
   \<and> snd (rateLimiter sample_limiter ''10.0.0.1'' (Unix 101000000000)) = Next
   \<and> fst (rateLimiter sample_limiter ''10.0.0.1'' (Unix 100999000000)) ''10.0.0.2'' = None
   \<and> rateLimiter sample_limiter ''10.0.0.1'' (Unix 161000000000)
       = rateLimiter (sample_limiter(''10.0.0.1'' := None)) ''10.0.0.1'' (Unix 161000000000)
   \<and> snd (rateLimiter sample_limiter ''10.0.0.3'' (Unix 100999000000)) = Next"
  using
    rateLimiter_arrival_policy [of 100999000000 100000000000 Map.empty "''10.0.0.1''" 100 "''10.0.0.2''" 30 30000000000]
    rateLimiter_arrival_policy [of 101000000000 100000000000 Map.empty "''10.0.0.1''" 100 "''10.0.0.2''" 30 30000000000]
    rateLimiter_arrival_policy [of 100999000000 100000000000 sample_limiter "''10.0.0.1''" 100 "''10.0.0.2''" 30 30000000000]
    rateLimiter_arrival_policy [of 101000000000 100000000000 sample_limiter "''10.0.0.1''" 100 "''10.0.0.2''" 30 30000000000]
    rateLimiter_arrival_policy [of 161000000000 100000000000 sample_limiter "''10.0.0.1''" 100 "''10.0.0.1''" 100 100000000000]
    rateLimiter_arrival_policy [of 100999000000 100000000000 sample_limiter "''10.0.0.3''" 100 "''10.0.0.2''" 30 30000000000]
  by (simp add: sample_limiter_def clock_ok_def time_Second_def Unix_def)

lemma serve_keeps:
  assumes "limiter ip = Some t" and "0 \<le> sint t"
    and "list_all (\<lambda>(client, now). 0 \<le> sint now \<and> sint now - sint t < 1) reqs"
  shows "serve limiter reqs ip = Some t"
  using assms
proof (induction reqs arbitrary: limiter)
  case Nil
  then show ?case by simp
next
  case (Cons req reqs)
  obtain client now where req: "req = (client, now)"
    by (cases req)
  from Cons.prems req have now: "0 \<le> sint now" "sint now - sint t < 1"
    by simp_all
  have kept: "purge limiter now ip = Some t"
    by (rule purge_keeps [of _ _ t]) (use Cons.prems(1,2) now in simp_all)
  have "fst (rateLimiter limiter client now) ip = Some t"
  proof (cases "client = ip")
    case True
    then show ?thesis
      using Cons.prems(1,2) now kept by (simp add: rateLimiter_rejects)
  next
    case False
    then show ?thesis
      using kept by (simp add: rateLimiter_other)
  qed
  then have "serve (fst (rateLimiter limiter client now)) reqs ip = Some t"
    by (rule Cons.IH) (use Cons.prems req in simp_all)
  then show ?case
    by (simp add: req)
qed

text \<open>
  C10. A rejected request leaves the client's recorded reading as it was: when the
  reading is \<open>t\<close> and a request of that client arrives less than 1 second after
  \<open>t\<close>, the request is answered 429 and the entry is still \<open>t\<close> afterwards. So after
  any sequence of requests, of this client or of others, each less than 1 second after
  \<open>t\<close>, the entry is still \<open>t\<close>, and a request of the client 1 second or more after
  \<open>t\<close> is admitted.
\<close>

theorem rejection_keeps_timestamp:
  assumes "limiter ip = Some t" and "0 \<le> sint t"
  shows "(0 \<le> sint now \<and> sint now - sint t < 1 \<longrightarrow>
            snd (rateLimiter limiter ip now) = AbortWithStatusJSON 429 (H_error ''Too many requests'')
          \<and> fst (rateLimiter limiter ip now) ip = Some t)
       \<and> (list_all (\<lambda>(client, now). 0 \<le> sint now \<and> sint now - sint t < 1) reqs
            \<and> 0 \<le> sint later \<and> 1 \<le> sint later - sint t \<longrightarrow>
            serve limiter reqs ip = Some t
          \<and> snd (rateLimiter (serve limiter reqs) ip later) = Next)"
proof (intro conjI impI)
  assume a: "0 \<le> sint now \<and> sint now - sint t < 1"
  have r: "rateLimiter limiter ip now
           = (purge limiter now, AbortWithStatusJSON 429 (H_error ''Too many requests''))"
    by (rule rateLimiter_rejects [of _ _ t]) (use assms a in simp_all)
  then show "snd (rateLimiter limiter ip now) = AbortWithStatusJSON 429 (H_error ''Too many requests'')"
    by simp
  have "purge limiter now ip = Some t"
    by (rule purge_keeps [of _ _ t]) (use assms a in simp_all)
  then show "fst (rateLimiter limiter ip now) ip = Some t"
    using r by simp
next
  assume b: "list_all (\<lambda>(client, now). 0 \<le> sint now \<and> sint now - sint t < 1) reqs
            \<and> 0 \<le> sint later \<and> 1 \<le> sint later - sint t"
  show k: "serve limiter reqs ip = Some t"
    by (rule serve_keeps) (use assms b in simp_all)
  show "snd (rateLimiter (serve limiter reqs) ip later) = Next"
    using k assms b by (simp add: rateLimiter_admits)
qed

theorem rejection_keeps_timestamp_witness:
  "fst (rateLimiter sample_limiter ''10.0.0.1'' 100) ''10.0.0.1'' = Some 100
   \<and> snd (rateLimiter sample_limiter ''10.0.0.1'' 100)
       = AbortWithStatusJSON 429 (H_error ''Too many requests'')
   \<and> serve sample_limiter [(''10.0.0.1'', 100), (''10.0.0.9'', 100), (''10.0.0.1'', 100)] ''10.0.0.1''
       = Some 100
   \<and> snd (rateLimiter (serve sample_limiter [(''10.0.0.1'', 100), (''10.0.0.9'', 100), (''10.0.0.1'', 100)])
            ''10.0.0.1'' 101) = Next"
  using rejection_keeps_timestamp [of sample_limiter "''10.0.0.1''" 100 100
      "[(''10.0.0.1'', 100), (''10.0.0.9'', 100), (''10.0.0.1'', 100)]" 101]
  by (simp add: sample_limiter_def)

end
